theory Spec2Isabelle
  imports Main
begin

section \<open>Strings\<close>

text \<open>
  Go strings and byte slices are modelled as \<open>string\<close> (lists of 8-bit characters).
  The standard-library string functions the patch tool calls are written out here.
\<close>

definition nl :: char where
  "nl = CHR 0x0A"

text \<open>\<^verbatim>\<open>strings.HasPrefix(s, p)\<close>\<close>

definition hasPrefix :: "string \<Rightarrow> string \<Rightarrow> bool" where
  "hasPrefix s p = (take (length p) s = p)"

text \<open>\<^verbatim>\<open>strings.HasSuffix(s, p)\<close>\<close>

definition hasSuffix :: "string \<Rightarrow> string \<Rightarrow> bool" where
  "hasSuffix s p = (length p \<le> length s \<and> drop (length s - length p) s = p)"

text \<open>\<^verbatim>\<open>strings.Contains(s, sub)\<close> and \<^verbatim>\<open>bytes.Contains\<close>\<close>

fun contains :: "string \<Rightarrow> string \<Rightarrow> bool" where
  "contains [] sub = (sub = [])"
| "contains (c # cs) sub = (hasPrefix (c # cs) sub \<or> contains cs sub)"

text \<open>\<^verbatim>\<open>strings.CutPrefix(s, p)\<close>: the rest after \<open>p\<close>, or \<open>None\<close> for \<open>ok = false\<close>.\<close>

definition cutPrefix :: "string \<Rightarrow> string \<Rightarrow> string option" where
  "cutPrefix s p = (if hasPrefix s p then Some (drop (length p) s) else None)"

text \<open>\<^verbatim>\<open>strings.Split(text, "\n")\<close>: never empty, \<open>Split("") = [""]\<close>.\<close>

fun splitLines :: "string \<Rightarrow> string list" where
  "splitLines [] = [[]]"
| "splitLines (c # cs) =
     (if c = nl then [] # splitLines cs
      else (c # hd (splitLines cs)) # tl (splitLines cs))"

text \<open>\<^verbatim>\<open>strings.Join(lines, "\n")\<close>\<close>

fun joinLines :: "string list \<Rightarrow> string" where
  "joinLines [] = []"
| "joinLines [l] = l"
| "joinLines (l # m # ls) = l @ nl # joinLines (m # ls)"

section \<open>Data model\<close>

text \<open>\<^verbatim>\<open>type Reindent struct\<close>\<close>

record Reindent =
  Strip :: string
  Add :: string

text \<open>\<^verbatim>\<open>type PatchRequest struct\<close>; the field \<^verbatim>\<open>Reindent *Reindent\<close> is \<open>None\<close> for nil.\<close>

record PatchRequest =
  Operation :: string
  OldText :: string
  NewText :: string
  ToClipboard :: string
  FromClipboard :: string
  ReindentAdj :: "Reindent option"

text \<open>
  \<^verbatim>\<open>type PatchInput struct\<close>. \<open>Path\<close> is the path after the first lines of
  \<^verbatim>\<open>patchRun\<close> have made it absolute (\<^verbatim>\<open>filepath.Join\<close> with the working directory).
\<close>

record PatchInput =
  Path :: string
  Patches :: "PatchRequest list"

section \<open>Reindent\<close>

datatype reindent_error = StripPreconditionFailed string string

text \<open>
  The first loop of \<^verbatim>\<open>reindent\<close>: every non-empty line loses the prefix \<open>strip\<close>;
  the first non-empty line without it ends the function with the error naming that line
  and \<open>strip\<close>.
\<close>

fun stripLines :: "string \<Rightarrow> string list \<Rightarrow> reindent_error + string list" where
  "stripLines strip [] = Inr []"
| "stripLines strip (line # rest) =
     (if line = [] then
        (case stripLines strip rest of Inl e \<Rightarrow> Inl e | Inr ls \<Rightarrow> Inr (line # ls))
      else
        (case cutPrefix line strip of
           None \<Rightarrow> Inl (StripPreconditionFailed line strip)
         | Some l \<Rightarrow>
             (case stripLines strip rest of Inl e \<Rightarrow> Inl e | Inr ls \<Rightarrow> Inr (l # ls))))"

text \<open>The second loop: every line that is non-empty now gets \<open>add\<close> in front.\<close>

fun addLines :: "string \<Rightarrow> string list \<Rightarrow> string list" where
  "addLines add [] = []"
| "addLines add (line # rest) =
     (if line = [] then line # addLines add rest else (add @ line) # addLines add rest)"

text \<open>\<^verbatim>\<open>func reindent(text string, adj *Reindent) (string, error)\<close>\<close>

fun reindent :: "string \<Rightarrow> Reindent option \<Rightarrow> reindent_error + string" where
  "reindent text None = Inr text"
| "reindent text (Some adj) =
     (case stripLines (Strip adj) (splitLines text) of
        Inl e \<Rightarrow> Inl e
      | Inr ls \<Rightarrow> Inr (joinLines (addLines (Add adj) ls)))"

section \<open>The matching package\<close>

text \<open>
  \<^verbatim>\<open>patchkit.Spec\<close>: the span \<open>[Off, Off + Len)\<close> of the original text that a matcher
  found, and the text that replaces it. \<^verbatim>\<open>patchRun\<close> reads \<open>Off\<close> and \<open>Len\<close>;
  \<open>New\<close> is what \<^verbatim>\<open>ApplyToEditBuf\<close> hands to the edit buffer.
\<close>

record Spec =
  Off :: nat
  Len :: nat
  New :: string

text \<open>
  The five matchers of package \<^verbatim>\<open>patchkit\<close> are called by \<^verbatim>\<open>patchRun\<close> but defined
  outside this repository, so they are parameters of the model. Each takes the original
  text, the old text and the new text. \<open>Unique\<close> returns a \<^verbatim>\<open>*Spec\<close> and a count;
  the other four return a \<^verbatim>\<open>*Spec\<close> and \<^verbatim>\<open>ok\<close>, modelled as \<open>Some\<close> for
  \<^verbatim>\<open>ok = true\<close> and \<open>None\<close> for \<^verbatim>\<open>ok = false\<close>.
\<close>

record patchkit =
  Unique :: "string \<Rightarrow> string \<Rightarrow> string \<Rightarrow> Spec option \<times> int"
  UniqueDedent :: "string \<Rightarrow> string \<Rightarrow> string \<Rightarrow> Spec option"
  UniqueInValidGo :: "string \<Rightarrow> string \<Rightarrow> string \<Rightarrow> Spec option"
  UniqueGoTokens :: "string \<Rightarrow> string \<Rightarrow> string \<Rightarrow> Spec option"
  UniqueTrim :: "string \<Rightarrow> string \<Rightarrow> string \<Rightarrow> Spec option"

text \<open>
  Modelled from the spec: the literal substring search of \<^verbatim>\<open>patchkit.Unique\<close>, which is
  not in this repository: the offsets at which \<open>needle\<close> occurs verbatim in \<open>haystack\<close>.
\<close>

definition matchOffsets :: "string \<Rightarrow> string \<Rightarrow> nat list" where
  "matchOffsets haystack needle =
     filter (\<lambda>i. take (length needle) (drop i haystack) = needle)
       [0 ..< Suc (length haystack - length needle)]"

text \<open>
  Modelled from the spec: \<^verbatim>\<open>patchkit.Unique\<close>, the first tier, is not in this
  repository. The spec (4.1, Exact-Unique) has it as a literal substring search:
  0 occurrences fall through, 1 is success, 2 or more is ambiguous; \<^verbatim>\<open>patchRun\<close>
  switches on the counts 0, 1 and 2. On success the span is the occurrence and the
  replacement is the new text.
\<close>

definition ExactUnique :: "string \<Rightarrow> string \<Rightarrow> string \<Rightarrow> Spec option \<times> int" where
  "ExactUnique haystack needle replace =
     (case matchOffsets haystack needle of
        [] \<Rightarrow> (None, 0)
      | [i] \<Rightarrow> (Some \<lparr>Off = i, Len = length needle, New = replace\<rparr>, 1)
      | _ \<Rightarrow> (None, 2))"

section \<open>The edit buffer\<close>

text \<open>
  Modelled from the spec: package \<^verbatim>\<open>editbuf\<close> is not in this repository. The spec
  (3 and 4.2) has the buffer as the original bytes and the pending edits
  \<open>(offset, length, replacement)\<close> in document coordinates; materialization sorts the
  edits by offset and emits the original bytes interleaved with the replacements, and
  rejects two edits whose spans intersect with an overlap error naming both.
\<close>

record Edit =
  offset :: nat
  len :: nat
  replacement :: string

record Buffer =
  old :: string
  pending :: "Edit list"

text \<open>
  Modelled from the spec: the overlap error of \<^verbatim>\<open>editbuf\<close> (spec 4.2), naming both
  edits.
\<close>

datatype buffer_error = OverlappingEdits Edit Edit

text \<open>
  Modelled from the spec: \<^verbatim>\<open>editbuf.NewBuffer(orig)\<close>, a buffer of the original bytes
  without pending edits (spec 3).
\<close>

definition NewBuffer :: "string \<Rightarrow> Buffer" where
  "NewBuffer orig = \<lparr>old = orig, pending = []\<rparr>"

text \<open>
  Modelled from the spec: \<open>registerEdit(offset, length, replacement)\<close> of spec 4.2, behind
  the calls of \<^verbatim>\<open>editbuf\<close> that \<^verbatim>\<open>patchRun\<close> makes.
\<close>

definition registerEdit :: "nat \<Rightarrow> nat \<Rightarrow> string \<Rightarrow> Buffer \<Rightarrow> Buffer" where
  "registerEdit off n text b =
     b\<lparr>pending := pending b @ [\<lparr>offset = off, len = n, replacement = text\<rparr>]\<rparr>"

text \<open>
  Modelled from the spec: \<^verbatim>\<open>buf.Insert(pos, new)\<close>, the edit \<open>(pos, 0, new)\<close>, as spec 4.2
  has it for prepend and append.
\<close>

definition Insert :: "nat \<Rightarrow> string \<Rightarrow> Buffer \<Rightarrow> Buffer" where
  "Insert pos text b = registerEdit pos 0 text b"

text \<open>
  Modelled from the spec: \<^verbatim>\<open>buf.Replace(start, end, new)\<close>, the edit
  \<open>(start, end - start, new)\<close>, as spec 4.2 has it for overwrite.
\<close>

definition Replace :: "nat \<Rightarrow> nat \<Rightarrow> string \<Rightarrow> Buffer \<Rightarrow> Buffer" where
  "Replace start fin text b = registerEdit start (fin - start) text b"

text \<open>
  Modelled from the spec: the materialization of spec 4.2 for the edits after \<open>e0\<close>, in
  offset order. An edit that starts before the end of the one before it intersects it,
  and the error names the two; otherwise the original bytes between the two are kept
  and the replacement follows.
\<close>

fun emitFrom :: "string \<Rightarrow> Edit \<Rightarrow> Edit list \<Rightarrow> buffer_error + string" where
  "emitFrom orig e0 [] = Inr (drop (offset e0 + len e0) orig)"
| "emitFrom orig e0 (e # es) =
     (if offset e < offset e0 + len e0 then Inl (OverlappingEdits e0 e)
      else
        (case emitFrom orig e es of
           Inl err \<Rightarrow> Inl err
         | Inr rest \<Rightarrow>
             Inr (take (offset e - (offset e0 + len e0)) (drop (offset e0 + len e0) orig)
                  @ replacement e @ rest)))"

text \<open>
  Modelled from the spec: \<^verbatim>\<open>buf.Bytes()\<close>, the materialization of spec 4.2: the pending
  edits are sorted by offset (edits of one offset stay in the order of registration), and
  the original bytes are emitted interleaved with the replacements.
\<close>

definition Bytes :: "Buffer \<Rightarrow> buffer_error + string" where
  "Bytes b =
     (case sort_key offset (pending b) of
        [] \<Rightarrow> Inr (old b)
      | e # es \<Rightarrow>
          (case emitFrom (old b) e es of
             Inl err \<Rightarrow> Inl err
           | Inr rest \<Rightarrow> Inr (take (offset e) (old b) @ replacement e @ rest)))"

text \<open>
  Modelled from the spec: \<^verbatim>\<open>spec.ApplyToEditBuf(buf)\<close> is not in this repository. The
  spec (4.5) has a found match register its edit with the buffer: the span of the match
  and the replacement.
\<close>

definition ApplyToEditBuf :: "Spec \<Rightarrow> Buffer \<Rightarrow> Buffer" where
  "ApplyToEditBuf sp b = Replace (Off sp) (Off sp + Len sp) (New sp) b"

section \<open>Autogenerated Go files\<close>

text \<open>
  The two standard-library calls of \<^verbatim>\<open>IsAutogeneratedGoFile\<close> that are not string
  searches are parameters: \<open>HeaderComments buf\<close> is
  \<^verbatim>\<open>parser.ParseFile(fset, "x.go", buf, parser.ImportsOnly|parser.ParseComments)\<close>,
  \<open>None\<close> for a parse error and otherwise the \<^verbatim>\<open>Text()\<close> of each comment group of
  \<^verbatim>\<open>f.Comments\<close>; \<open>ToLower\<close> is \<^verbatim>\<open>strings.ToLower\<close>.
\<close>

record gostd =
  HeaderComments :: "string \<Rightarrow> string list option"
  ToLower :: "string \<Rightarrow> string"

text \<open>\<^verbatim>\<open>var autogeneratedSignals\<close>\<close>

definition autogeneratedSignals :: "string list" where
  "autogeneratedSignals = [nl # ''func bindataRead('']"

text \<open>
  \<^verbatim>\<open>var autogeneratedHeaderSignals\<close>: the source lower-cases three ASCII literals, which
  gives these strings.
\<close>

definition autogeneratedHeaderSignals :: "string list" where
  "autogeneratedHeaderSignals = [''generate'', ''do not edit'', ''export by'']"

text \<open>\<^verbatim>\<open>func IsAutogeneratedGoFile(buf []byte) bool\<close>\<close>

definition IsAutogeneratedGoFile :: "gostd \<Rightarrow> string \<Rightarrow> bool" where
  "IsAutogeneratedGoFile G buf =
     (if list_ex (\<lambda>sig. contains buf sig) autogeneratedSignals then True
      else
        (case HeaderComments G buf of
           None \<Rightarrow> False
         | Some cgs \<Rightarrow>
             list_ex (\<lambda>cg. list_ex (\<lambda>sig. contains (ToLower G cg) sig)
                                    autogeneratedHeaderSignals) cgs))"

section \<open>The patch tool\<close>

text \<open>One entry of \<^verbatim>\<open>patchErr\<close>, the errors joined over the batch.\<close>

datatype match_error =
  OldTextNotUnique string
| InternalError
| OldTextNotFound string

text \<open>
  One entry of \<^verbatim>\<open>clipboardsModified\<close>: the \<^verbatim>\<open>clipboard_modified\<close> message with the
  clipboard's name and its new contents.
\<close>

datatype clip_note = ClipboardModified string string

text \<open>
  The errors \<^verbatim>\<open>patchRun\<close> returns, one constructor for each \<^verbatim>\<open>ErrorToolOut\<close> and
  \<^verbatim>\<open>ErrorfToolOut\<close> of the source, with the values its message is formatted from.
  \<open>PatchErrors\<close> is \<^verbatim>\<open>patchErr\<close> followed by the clipboard messages. \<open>RuntimePanic\<close>
  stands for the two places where the Go runtime would panic: a slice of the original
  text out of range, and a nil \<^verbatim>\<open>*Spec\<close> returned with count 1.
\<close>

datatype tool_error =
  NoPatchesProvided
| FileDoesNotExist string
| FailedToReadFile string
| ToClipboardNotReplace string
| ToClipboardEmptyOldText string
| FromClipboardMissing string
| ReindentFailed string string reindent_error
| EmptyOldText nat string
| UnrecognizedOperation string
| PatchErrors "match_error list" "clip_note list"
| BufferError buffer_error
| FailedToCreateDirectory string
| FailedToWriteFile string
| RuntimePanic

text \<open>
  \<^verbatim>\<open>type PatchDisplayData struct\<close>, without the rendered diff, which an external
  library computes from the two contents.
\<close>

record PatchDisplayData =
  DisplayPath :: string
  OldContent :: string
  NewContent :: string

text \<open>
  \<^verbatim>\<open>llm.ToolOut\<close>: an error, or the response of a committed batch: the clipboard
  messages, whether the autogenerated warning is in it, and the display data.
\<close>

datatype ToolOut =
  ErrorToolOut tool_error
| PatchesApplied "clip_note list" bool PatchDisplayData

text \<open>
  The file system as \<^verbatim>\<open>patchRun\<close> meets it: what \<^verbatim>\<open>os.ReadFile\<close> returns for the
  path, and whether \<^verbatim>\<open>os.MkdirAll\<close> and \<^verbatim>\<open>os.WriteFile\<close> succeed. The calls made are
  logged in order.
\<close>

datatype read_result = FileContent string | ErrNotExist | ErrOther

record filesystem =
  readFile :: read_result
  mkdirAllOk :: bool
  writeFileOk :: bool

datatype io_event =
  ReadFile string
| MkdirAll string
| WriteFile string string

text \<open>
  The variables of \<^verbatim>\<open>patchRun\<close> that its loop changes: \<^verbatim>\<open>p.clipboards\<close>, \<^verbatim>\<open>buf\<close>,
  \<^verbatim>\<open>patchErr\<close> (the joined errors, in order) and \<^verbatim>\<open>clipboardsModified\<close>.
\<close>

record run_state =
  clipboards :: "string \<rightharpoonup> string"
  buf :: Buffer
  patchErr :: "match_error list"
  clipboardsModified :: "clip_note list"

text \<open>
  What one iteration of the loop ends with: a \<^verbatim>\<open>return\<close> from \<^verbatim>\<open>patchRun\<close> with an
  error (the clipboards as they are at that point), or the state for the next iteration.
\<close>

datatype step_result =
  Abort tool_error "string \<rightharpoonup> string"
| Continue run_state

text \<open>The five tiers, in the order \<^verbatim>\<open>patchRun\<close> calls them.\<close>

datatype tier = TierUnique | TierDedent | TierInValidGo | TierGoTokens | TierTrim

datatype ladder_result =
  Matched tier Spec
| NotUnique
| UnexpectedCount
| NilSpec
| NotFound

text \<open>
  The matching part of the \<^verbatim>\<open>replace\<close> case: the switch on the count of
  \<^verbatim>\<open>patchkit.Unique\<close>, then the four recovery matchers, each tried only when all
  before it found nothing.
\<close>

definition matchLadder :: "patchkit \<Rightarrow> string \<Rightarrow> string \<Rightarrow> string \<Rightarrow> ladder_result" where
  "matchLadder K origStr oldText newText =
     (case Unique K origStr oldText newText of (spec, count) \<Rightarrow>
        if count = 0 then
          (case UniqueDedent K origStr oldText newText of
             Some sp \<Rightarrow> Matched TierDedent sp
           | None \<Rightarrow>
          (case UniqueInValidGo K origStr oldText newText of
             Some sp \<Rightarrow> Matched TierInValidGo sp
           | None \<Rightarrow>
          (case UniqueGoTokens K origStr oldText newText of
             Some sp \<Rightarrow> Matched TierGoTokens sp
           | None \<Rightarrow>
          (case UniqueTrim K origStr oldText newText of
             Some sp \<Rightarrow> Matched TierTrim sp
           | None \<Rightarrow> NotFound))))
        else if count = 1 then
          (case spec of Some sp \<Rightarrow> Matched TierUnique sp | None \<Rightarrow> NilSpec)
        else if count = 2 then NotUnique
        else UnexpectedCount)"

text \<open>
  The closure \<^verbatim>\<open>updateToClipboard\<close>: the clipboard named by the patch gets the matched
  text \<^verbatim>\<open>origStr[spec.Off : spec.Off+spec.Len]\<close>, and a message is added.
\<close>

definition updateToClipboard :: "string \<Rightarrow> PatchRequest \<Rightarrow> Spec \<Rightarrow> run_state \<Rightarrow> step_result" where
  "updateToClipboard origStr patch sp s =
     (if ToClipboard patch = [] then Continue s
      else if length origStr < Off sp + Len sp then Abort RuntimePanic (clipboards s)
      else
        let matchedOldText = take (Len sp) (drop (Off sp) origStr) in
        Continue (s\<lparr>clipboards := (clipboards s)(ToClipboard patch \<mapsto> matchedOldText),
                    clipboardsModified := clipboardsModified s
                      @ [ClipboardModified (ToClipboard patch) matchedOldText]\<rparr>))"

text \<open>The start of the loop body: \<^verbatim>\<open>toClipboard\<close> is processed first.\<close>

definition captureToClipboard ::
  "PatchRequest \<Rightarrow> (string \<rightharpoonup> string) \<Rightarrow> tool_error + (string \<rightharpoonup> string)" where
  "captureToClipboard patch cb =
     (if ToClipboard patch \<noteq> [] then
        if Operation patch \<noteq> ''replace'' then Inl (ToClipboardNotReplace (ToClipboard patch))
        else if OldText patch = [] then Inl (ToClipboardEmptyOldText (ToClipboard patch))
        else Inr (cb(ToClipboard patch \<mapsto> OldText patch))
      else Inr cb)"

text \<open>Then \<^verbatim>\<open>fromClipboard\<close> and the indentation adjustment give the new text.\<close>

definition resolveNewText :: "PatchRequest \<Rightarrow> (string \<rightharpoonup> string) \<Rightarrow> tool_error + string" where
  "resolveNewText patch cb =
     (case (if FromClipboard patch \<noteq> [] then
              (case cb (FromClipboard patch) of
                 None \<Rightarrow> Inl (FromClipboardMissing (FromClipboard patch))
               | Some clipboardText \<Rightarrow> Inr clipboardText)
            else Inr (NewText patch)) of
        Inl e \<Rightarrow> Inl e
      | Inr newText \<Rightarrow>
          (case ReindentAdj patch of
             None \<Rightarrow> Inr newText
           | Some adj \<Rightarrow>
               (case reindent newText (Some adj) of
                  Inl err \<Rightarrow> Inl (ReindentFailed (Strip adj) (Add adj) err)
                | Inr reindentedText \<Rightarrow> Inr reindentedText)))"

text \<open>The switch on the operation, with the new text resolved.\<close>

definition applyOperation ::
  "patchkit \<Rightarrow> string \<Rightarrow> nat \<Rightarrow> PatchRequest \<Rightarrow> string \<Rightarrow> run_state \<Rightarrow> step_result" where
  "applyOperation K origStr i patch newText s =
     (if Operation patch = ''prepend_bof'' then
        Continue (s\<lparr>buf := Insert 0 newText (buf s)\<rparr>)
      else if Operation patch = ''append_eof'' then
        Continue (s\<lparr>buf := Insert (length origStr) newText (buf s)\<rparr>)
      else if Operation patch = ''overwrite'' then
        Continue (s\<lparr>buf := Replace 0 (length origStr) newText (buf s)\<rparr>)
      else if Operation patch = ''replace'' then
        if OldText patch = [] then Abort (EmptyOldText i (Operation patch)) (clipboards s)
        else
          (case matchLadder K origStr (OldText patch) newText of
             Matched t sp \<Rightarrow>
               let s' = s\<lparr>buf := ApplyToEditBuf sp (buf s)\<rparr> in
               if t = TierDedent \<or> t = TierInValidGo \<or> t = TierGoTokens
               then updateToClipboard origStr patch sp s'
               else Continue s'
           | NotUnique \<Rightarrow>
               Continue (s\<lparr>patchErr := patchErr s @ [OldTextNotUnique (OldText patch)]\<rparr>)
           | UnexpectedCount \<Rightarrow>
               Continue (s\<lparr>patchErr := patchErr s @ [InternalError]\<rparr>)
           | NilSpec \<Rightarrow> Abort RuntimePanic (clipboards s)
           | NotFound \<Rightarrow>
               Continue (s\<lparr>patchErr := patchErr s @ [OldTextNotFound (OldText patch)]\<rparr>))
      else Abort (UnrecognizedOperation (Operation patch)) (clipboards s))"

text \<open>One iteration of \<^verbatim>\<open>for i, patch := range input.Patches\<close>.\<close>

definition patchStep ::
  "patchkit \<Rightarrow> string \<Rightarrow> nat \<Rightarrow> PatchRequest \<Rightarrow> run_state \<Rightarrow> step_result" where
  "patchStep K origStr i patch s =
     (case captureToClipboard patch (clipboards s) of
        Inl e \<Rightarrow> Abort e (clipboards s)
      | Inr cb \<Rightarrow>
          (case resolveNewText patch cb of
             Inl e \<Rightarrow> Abort e cb
           | Inr newText \<Rightarrow> applyOperation K origStr i patch newText (s\<lparr>clipboards := cb\<rparr>)))"

text \<open>The loop over the patches, from index \<open>i\<close>.\<close>

fun patchLoop ::
  "patchkit \<Rightarrow> string \<Rightarrow> nat \<Rightarrow> PatchRequest list \<Rightarrow> run_state \<Rightarrow> step_result" where
  "patchLoop K origStr i [] s = Continue s"
| "patchLoop K origStr i (patch # rest) s =
     (case patchStep K origStr i patch s of
        Abort e cb \<Rightarrow> Abort e cb
      | Continue s' \<Rightarrow> patchLoop K origStr (Suc i) rest s')"

text \<open>
  What a call of \<^verbatim>\<open>patchRun\<close> leaves: its output, the clipboards of the tool, and the
  file-system calls it made.
\<close>

record run_result =
  out :: ToolOut
  clips :: "string \<rightharpoonup> string"
  io :: "io_event list"

text \<open>The end of \<^verbatim>\<open>patchRun\<close>, after the loop has run through all patches.\<close>

definition finish ::
  "filesystem \<Rightarrow> string \<Rightarrow> bool \<Rightarrow> string \<Rightarrow> run_state \<Rightarrow> run_result" where
  "finish fs path autogenerated orig s =
     (if patchErr s \<noteq> [] then
        \<lparr>out = ErrorToolOut (PatchErrors (patchErr s) (clipboardsModified s)),
         clips = clipboards s, io = [ReadFile path]\<rparr>
      else
        (case Bytes (buf s) of
           Inl err \<Rightarrow>
             \<lparr>out = ErrorToolOut (BufferError err), clips = clipboards s, io = [ReadFile path]\<rparr>
         | Inr patched \<Rightarrow>
             if \<not> mkdirAllOk fs then
               \<lparr>out = ErrorToolOut (FailedToCreateDirectory path), clips = clipboards s,
                io = [ReadFile path, MkdirAll path]\<rparr>
             else if \<not> writeFileOk fs then
               \<lparr>out = ErrorToolOut (FailedToWriteFile path), clips = clipboards s,
                io = [ReadFile path, MkdirAll path, WriteFile path patched]\<rparr>
             else
               \<lparr>out = PatchesApplied (clipboardsModified s) autogenerated
                        \<lparr>DisplayPath = path, OldContent = orig, NewContent = patched\<rparr>,
                clips = clipboards s,
                io = [ReadFile path, MkdirAll path, WriteFile path patched]\<rparr>))"

text \<open>\<^verbatim>\<open>patchRun\<close> from the file's content on: the flag, the loop and the end.\<close>

definition runOn ::
  "gostd \<Rightarrow> patchkit \<Rightarrow> filesystem \<Rightarrow> PatchInput \<Rightarrow> string \<Rightarrow> (string \<rightharpoonup> string) \<Rightarrow> run_result" where
  "runOn G K fs input orig cb =
     (let likelyGoFile = hasSuffix (Path input) ''.go'';
          autogenerated = (likelyGoFile \<and> IsAutogeneratedGoFile G orig)
      in
        (case patchLoop K orig 0 (Patches input)
                \<lparr>clipboards = cb, buf = NewBuffer orig, patchErr = [], clipboardsModified = []\<rparr> of
           Abort e cb' \<Rightarrow> \<lparr>out = ErrorToolOut e, clips = cb', io = [ReadFile (Path input)]\<rparr>
         | Continue s \<Rightarrow> finish fs (Path input) autogenerated orig s))"

text \<open>The operations that do not need the file to exist.\<close>

definition creates :: "PatchRequest \<Rightarrow> bool" where
  "creates patch =
     (Operation patch = ''prepend_bof'' \<or> Operation patch = ''append_eof''
      \<or> Operation patch = ''overwrite'')"

text \<open>
  \<^verbatim>\<open>func (p *PatchTool) patchRun(ctx context.Context, input *PatchInput) llm.ToolOut\<close>,
  with the clipboards of the tool passed in and returned.
\<close>

definition patchRun ::
  "gostd \<Rightarrow> patchkit \<Rightarrow> filesystem \<Rightarrow> PatchInput \<Rightarrow> (string \<rightharpoonup> string) \<Rightarrow> run_result" where
  "patchRun G K fs input cb =
     (if Patches input = [] then
        \<lparr>out = ErrorToolOut NoPatchesProvided, clips = cb, io = []\<rparr>
      else
        (case readFile fs of
           ErrNotExist \<Rightarrow>
             if list_all creates (Patches input) then runOn G K fs input [] cb
             else \<lparr>out = ErrorToolOut (FileDoesNotExist (Path input)), clips = cb,
                   io = [ReadFile (Path input)]\<rparr>
         | ErrOther \<Rightarrow>
             \<lparr>out = ErrorToolOut (FailedToReadFile (Path input)), clips = cb,
              io = [ReadFile (Path input)]\<rparr>
         | FileContent orig \<Rightarrow> runOn G K fs input orig cb))"

section \<open>Definitions used to state the properties\<close>

text \<open>A non-empty line that does not start with \<open>strip\<close>.\<close>

definition lacksPrefix :: "string \<Rightarrow> string \<Rightarrow> bool" where
  "lacksPrefix strip line = (line \<noteq> [] \<and> \<not> hasPrefix line strip)"

text \<open>
  What the reindent transform does to one line, in the words of the spec (4.4): an empty
  line is left as it is; a non-empty line loses \<open>strip\<close> and then, if something is
  left, gets \<open>add\<close> in front.
\<close>

definition reindentLine :: "Reindent \<Rightarrow> string \<Rightarrow> string" where
  "reindentLine adj line =
     (if line = [] then []
      else if drop (length (Strip adj)) line = [] then []
      else Add adj @ drop (length (Strip adj)) line)"

text \<open>The clipboards that an iteration or the loop leaves, whichever way it ends.\<close>

fun clipsOf :: "step_result \<Rightarrow> (string \<rightharpoonup> string)" where
  "clipsOf (Abort e cb) = cb"
| "clipsOf (Continue s) = clipboards s"

text \<open>The state in which \<^verbatim>\<open>patchRun\<close> enters its loop.\<close>

definition initState :: "string \<Rightarrow> (string \<rightharpoonup> string) \<Rightarrow> run_state" where
  "initState orig cb =
     \<lparr>clipboards = cb, buf = NewBuffer orig, patchErr = [], clipboardsModified = []\<rparr>"

text \<open>
  The matching error of one operation, if it has one: the operation is a replace, its
  clipboard capture and its new text resolve, and the ladder ends without a match.
\<close>

definition matchFailure ::
  "patchkit \<Rightarrow> string \<Rightarrow> PatchRequest \<Rightarrow> (string \<rightharpoonup> string) \<Rightarrow> match_error option" where
  "matchFailure K origStr patch cb =
     (if Operation patch = ''replace'' \<and> OldText patch \<noteq> [] then
        (case captureToClipboard patch cb of
           Inl e \<Rightarrow> None
         | Inr cb' \<Rightarrow>
             (case resolveNewText patch cb' of
                Inl e \<Rightarrow> None
              | Inr newText \<Rightarrow>
                  (case matchLadder K origStr (OldText patch) newText of
                     NotUnique \<Rightarrow> Some (OldTextNotUnique (OldText patch))
                   | NotFound \<Rightarrow> Some (OldTextNotFound (OldText patch))
                   | UnexpectedCount \<Rightarrow> Some InternalError
                   | _ \<Rightarrow> None)))
      else None)"

text \<open>
  The failing operations of a batch, by index, each with its matching error: the batch
  is followed operation by operation, since the clipboards an operation sees are those
  the operations before it left.
\<close>

fun failures ::
  "patchkit \<Rightarrow> string \<Rightarrow> nat \<Rightarrow> PatchRequest list \<Rightarrow> run_state \<Rightarrow> (nat \<times> match_error) list" where
  "failures K origStr i [] s = []"
| "failures K origStr i (patch # rest) s =
     (case matchFailure K origStr patch (clipboards s) of
        Some e \<Rightarrow> [(i, e)]
      | None \<Rightarrow> [])
     @ (case patchStep K origStr i patch s of
          Abort e cb \<Rightarrow> []
        | Continue s' \<Rightarrow> failures K origStr (Suc i) rest s')"

text \<open>Stand-ins for the parameters, to run the model on concrete batches.\<close>

definition noMatch :: "string \<Rightarrow> string \<Rightarrow> string \<Rightarrow> Spec option" where
  "noMatch origStr oldText newText = None"

text \<open>The exact search as first tier, and recovery tiers that find nothing.\<close>

definition exactKit :: patchkit where
  "exactKit = \<lparr>Unique = ExactUnique, UniqueDedent = noMatch, UniqueInValidGo = noMatch,
      UniqueGoTokens = noMatch, UniqueTrim = noMatch\<rparr>"

text \<open>A file that exists with the given content, in a writable directory.\<close>

definition plainFs :: "string \<Rightarrow> filesystem" where
  "plainFs content = \<lparr>readFile = FileContent content, mkdirAllOk = True, writeFileOk = True\<rparr>"

text \<open>A parser that rejects every file; lower-casing is not needed then.\<close>

definition noGo :: gostd where
  "noGo = \<lparr>HeaderComments = (\<lambda>buf. None), ToLower = (\<lambda>s. s)\<rparr>"

text \<open>A request with the given operation, old text and new text, and nothing else set.\<close>

definition request :: "string \<Rightarrow> string \<Rightarrow> string \<Rightarrow> PatchRequest" where
  "request kind a b = \<lparr>Operation = kind, OldText = a, NewText = b, ToClipboard = [],
     FromClipboard = [], ReindentAdj = None\<rparr>"

text \<open>
  The recovery tiers in the words of the spec (4.1): tried in order, the first one that
  finds a match stops the ladder, one that finds none falls through to the next.
\<close>

fun firstMatch ::
  "(tier \<times> (string \<Rightarrow> string \<Rightarrow> string \<Rightarrow> Spec option)) list
   \<Rightarrow> string \<Rightarrow> string \<Rightarrow> string \<Rightarrow> ladder_result" where
  "firstMatch [] origStr oldText newText = NotFound"
| "firstMatch ((t, matcher) # ts) origStr oldText newText =
     (case matcher origStr oldText newText of
        Some sp \<Rightarrow> Matched t sp
      | None \<Rightarrow> firstMatch ts origStr oldText newText)"

definition recoveryTiers ::
  "patchkit \<Rightarrow> (tier \<times> (string \<Rightarrow> string \<Rightarrow> string \<Rightarrow> Spec option)) list" where
  "recoveryTiers K =
     [(TierDedent, UniqueDedent K), (TierInValidGo, UniqueInValidGo K),
      (TierGoTokens, UniqueGoTokens K), (TierTrim, UniqueTrim K)]"

text \<open>
  The text an operation inserts before reindenting: its new text, or the content of the
  clipboard it names; the clipboard it captures into holds its old text by then.
\<close>

definition insertedText :: "PatchRequest \<Rightarrow> (string \<rightharpoonup> string) \<Rightarrow> string" where
  "insertedText patch cb =
     (if FromClipboard patch = [] then NewText patch
      else if FromClipboard patch = ToClipboard patch then OldText patch
      else (case cb (FromClipboard patch) of Some t \<Rightarrow> t | None \<Rightarrow> []))"

text \<open>
  The structural error of operation \<open>i\<close> among clipboards \<open>cb\<close>, in the words of the
  spec (7): a capture on an operation that is not a replace, a capture with empty old
  text, a clipboard that does not exist, a reindent prefix mismatch, an empty old text
  on a replace, an unrecognized kind of operation.
\<close>

definition structuralError ::
  "nat \<Rightarrow> PatchRequest \<Rightarrow> (string \<rightharpoonup> string) \<Rightarrow> tool_error option" where
  "structuralError i patch cb =
     (if ToClipboard patch \<noteq> [] \<and> Operation patch \<noteq> ''replace''
        then Some (ToClipboardNotReplace (ToClipboard patch))
      else if ToClipboard patch \<noteq> [] \<and> OldText patch = []
        then Some (ToClipboardEmptyOldText (ToClipboard patch))
      else if FromClipboard patch \<noteq> [] \<and> FromClipboard patch \<noteq> ToClipboard patch
              \<and> cb (FromClipboard patch) = None
        then Some (FromClipboardMissing (FromClipboard patch))
      else
        (case (case ReindentAdj patch of
                 None \<Rightarrow> None
               | Some adj \<Rightarrow>
                   (case reindent (insertedText patch cb) (Some adj) of
                      Inl err \<Rightarrow> Some (ReindentFailed (Strip adj) (Add adj) err)
                    | Inr t \<Rightarrow> None)) of
           Some e \<Rightarrow> Some e
         | None \<Rightarrow>
             if Operation patch = ''replace'' \<and> OldText patch = []
               then Some (EmptyOldText i (Operation patch))
             else if creates patch \<or> Operation patch = ''replace'' then None
             else Some (UnrecognizedOperation (Operation patch))))"

text \<open>
  Modelled from the spec: \<^verbatim>\<open>patchkit.UniqueDedent\<close> is not in this repository. The
  spec (4.1, Dedent-Unique) has the old text match modulo one leading-whitespace delta
  on all its non-empty lines. This stand-in answers one example of that and nothing
  else: the document of the two lines \<open>a\<close> and \<open>b\<close>, each behind a tab, and the old
  text of the lines \<open>a\<close> and \<open>b\<close> without the tabs, at the span of the two lines.
\<close>

definition tabbed :: string where
  "tabbed = CHR 0x09 # ''a\<newline>'' @ CHR 0x09 # ''b\<newline>''"

definition dedentExample :: "string \<Rightarrow> string \<Rightarrow> string \<Rightarrow> Spec option" where
  "dedentExample origStr oldText newText =
     (if origStr = tabbed \<and> oldText = ''a\<newline>b\<newline>''
      then Some \<lparr>Off = 0, Len = 6, New = newText\<rparr> else None)"

definition dedentKit :: patchkit where
  "dedentKit = \<lparr>Unique = ExactUnique, UniqueDedent = dedentExample,
      UniqueInValidGo = noMatch, UniqueGoTokens = noMatch, UniqueTrim = noMatch\<rparr>"





text \<open>The tiers after which \<^verbatim>\<open>patchRun\<close> calls \<^verbatim>\<open>updateToClipboard\<close>.\<close>

definition recaptures :: "tier \<Rightarrow> bool" where
  "recaptures t = (t = TierDedent \<or> t = TierInValidGo \<or> t = TierGoTokens)"

text \<open>
  What a replace with a capture name leaves in its clipboard: the matched text of the
  document when it matched by a tier that re-captures, its old text otherwise.
\<close>

definition capturedText ::
  "patchkit \<Rightarrow> string \<Rightarrow> PatchRequest \<Rightarrow> (string \<rightharpoonup> string) \<Rightarrow> string" where
  "capturedText K origStr patch cb =
     (case resolveNewText patch (cb(ToClipboard patch \<mapsto> OldText patch)) of
        Inl e \<Rightarrow> OldText patch
      | Inr newText \<Rightarrow>
          (case matchLadder K origStr (OldText patch) newText of
             Matched t sp \<Rightarrow>
               if recaptures t \<and> Off sp + Len sp \<le> length origStr
               then take (Len sp) (drop (Off sp) origStr)
               else OldText patch
           | _ \<Rightarrow> OldText patch))"

text \<open>A replace of \<open>a\<close> by \<open>b\<close> that captures into the clipboard \<open>c\<close>.\<close>

definition capture :: "string \<Rightarrow> string \<Rightarrow> string \<Rightarrow> PatchRequest" where
  "capture a b c = \<lparr>Operation = ''replace'', OldText = a, NewText = b, ToClipboard = c,
     FromClipboard = [], ReindentAdj = None\<rparr>"

text \<open>An operation of the given kind that takes its new text from the clipboard \<open>c\<close>.\<close>

definition paste :: "string \<Rightarrow> string \<Rightarrow> PatchRequest" where
  "paste kind c = \<lparr>Operation = kind, OldText = [], NewText = [], ToClipboard = [],
     FromClipboard = c, ReindentAdj = None\<rparr>"












section \<open>Splitting and joining lines\<close>

lemma splitLines_ne: "splitLines t \<noteq> []"
  by (induction t) auto

lemma join_split: "joinLines (splitLines t) = t"
proof (induction t)
  case Nil
  show ?case by simp
next
  case (Cons c cs)
  obtain l ls where e: "splitLines cs = l # ls"
    using splitLines_ne[of cs] by (cases "splitLines cs") auto
  show ?case using Cons e by (cases ls) auto
qed

lemma split_no_nl: "l \<in> set (splitLines t) \<Longrightarrow> nl \<notin> set l"
proof (induction t arbitrary: l)
  case Nil
  then show ?case by simp
next
  case (Cons c cs)
  obtain k ks where e: "splitLines cs = k # ks"
    using splitLines_ne[of cs] by (cases "splitLines cs") auto
  show ?case using Cons e by (auto split: if_splits)
qed

lemma split_append_nonl: "nl \<notin> set l \<Longrightarrow> splitLines (l @ nl # t) = l # splitLines t"
  by (induction l) auto

lemma split_nonl: "nl \<notin> set l \<Longrightarrow> splitLines l = [l]"
  by (induction l) auto

lemma split_join:
  "ls \<noteq> [] \<Longrightarrow> (\<forall>l\<in>set ls. nl \<notin> set l) \<Longrightarrow> splitLines (joinLines ls) = ls"
proof (induction ls rule: joinLines.induct)
  case 1
  then show ?case by simp
next
  case (2 l)
  then show ?case by (simp add: split_nonl)
next
  case (3 l m ls)
  then show ?case by (simp add: split_append_nonl)
qed

lemma hasSuffix_nl: "hasSuffix s [nl] = (s \<noteq> [] \<and> last s = nl)"
proof (cases s rule: rev_cases)
  case Nil
  then show ?thesis by (simp add: hasSuffix_def)
next
  case (snoc ys y)
  then show ?thesis by (auto simp: hasSuffix_def)
qed

lemma join_suffix_nl:
  "ls \<noteq> [] \<Longrightarrow> last ls = [] \<or> last (last ls) \<noteq> nl \<Longrightarrow>
   hasSuffix (joinLines ls) [nl] = (2 \<le> length ls \<and> last ls = [])"
proof (induction ls rule: joinLines.induct)
  case 1
  then show ?case by simp
next
  case (2 l)
  then show ?case by (auto simp: hasSuffix_nl)
next
  case (3 l m ls)
  then have "hasSuffix (joinLines (m # ls)) [nl] = (2 \<le> length (m # ls) \<and> last (m # ls) = [])"
    by simp
  moreover have "hasSuffix (l @ nl # joinLines (m # ls)) [nl]
      = (joinLines (m # ls) = [] \<or> hasSuffix (joinLines (m # ls)) [nl])"
    by (auto simp: hasSuffix_nl)
  moreover have "joinLines (m # ls) = [] \<longleftrightarrow> (m = [] \<and> ls = [])"
    by (cases ls) auto
  ultimately show ?case by (cases ls) auto
qed

lemma text_suffix_nl:
  "hasSuffix t [nl] = (2 \<le> length (splitLines t) \<and> last (splitLines t) = [])"
proof -
  have "last (splitLines t) = [] \<or> last (last (splitLines t)) \<noteq> nl"
    using split_no_nl[of "last (splitLines t)" t] splitLines_ne[of t]
    by (metis last_in_set)
  from join_suffix_nl[OF splitLines_ne this] show ?thesis by (simp add: join_split)
qed

section \<open>Reindent: properties\<close>

lemma stripLines_char:
  "stripLines strip ls =
     (case find (lacksPrefix strip) ls of
        Some l \<Rightarrow> Inl (StripPreconditionFailed l strip)
      | None \<Rightarrow> Inr (map (drop (length strip)) ls))"
  by (induction ls) (auto simp: lacksPrefix_def cutPrefix_def split: option.splits)

lemma addLines_map: "addLines add ls = map (\<lambda>l. if l = [] then [] else add @ l) ls"
  by (induction ls) auto

lemma reindent_char:
  "reindent t (Some adj) =
     (case find (lacksPrefix (Strip adj)) (splitLines t) of
        Some l \<Rightarrow> Inl (StripPreconditionFailed l (Strip adj))
      | None \<Rightarrow> Inr (joinLines (map (reindentLine adj) (splitLines t))))"
proof -
  have "(\<lambda>l. if l = [] then [] else Add adj @ l) \<circ> drop (length (Strip adj))
        = reindentLine adj"
    by (rule ext) (auto simp: reindentLine_def)
  then show ?thesis
    by (simp add: stripLines_char addLines_map del: drop_eq_Nil drop_eq_Nil2
        split: option.splits)
qed

lemma reindentLine_no_nl:
  "nl \<notin> set (Add adj) \<Longrightarrow> nl \<notin> set l \<Longrightarrow> nl \<notin> set (reindentLine adj l)"
  by (auto simp: reindentLine_def dest: in_set_dropD)

lemma reindentLine_last:
  assumes "nl \<notin> set l"
  shows "reindentLine adj l = [] \<or> last (reindentLine adj l) \<noteq> nl"
proof (cases "reindentLine adj l = []")
  case True
  then show ?thesis by simp
next
  case False
  then have d: "drop (length (Strip adj)) l \<noteq> []"
    and e: "reindentLine adj l = Add adj @ drop (length (Strip adj)) l"
    by (auto simp: reindentLine_def split: if_splits)
  have "last (drop (length (Strip adj)) l) \<in> set l"
    using d by (meson in_set_dropD last_in_set)
  then show ?thesis using assms d e by auto
qed

lemma reindentLine_empty:
  "\<not> lacksPrefix (Strip adj) l \<Longrightarrow> (reindentLine adj l = []) = (l = [] \<or> l = Strip adj)"
  by (auto simp: reindentLine_def lacksPrefix_def hasPrefix_def)

text \<open>
  C4, as the code has it. For every text and reindent configuration: if some non-empty
  line does not start with \<open>strip\<close>, reindent fails with the error naming the first such
  line and \<open>strip\<close>; otherwise it returns the lines joined by newlines, where an empty
  line is left untouched and a non-empty line has lost \<open>strip\<close> and, when something is
  left of it, got \<open>add\<close> in front. When \<open>add\<close> contains no newline the result has the
  same lines one for one, so the same line count. The result ends in a newline exactly
  when the text does or when the text has more than one line and its last line is
  \<open>strip\<close> itself.
\<close>

theorem reindent_lines:
  "(find (lacksPrefix (Strip adj)) (splitLines t) = Some line \<longrightarrow>
      reindent t (Some adj) = Inl (StripPreconditionFailed line (Strip adj)))
   \<and> (find (lacksPrefix (Strip adj)) (splitLines t) = None \<longrightarrow>
      reindent t (Some adj) = Inr (joinLines (map (reindentLine adj) (splitLines t))))
   \<and> (reindent t (Some adj) = Inr r \<and> nl \<notin> set (Add adj) \<longrightarrow>
      splitLines r = map (reindentLine adj) (splitLines t))
   \<and> (reindent t (Some adj) = Inr r \<longrightarrow>
      hasSuffix r [nl] =
        (hasSuffix t [nl] \<or> 2 \<le> length (splitLines t) \<and> last (splitLines t) = Strip adj))"
proof (intro conjI impI)
  assume "find (lacksPrefix (Strip adj)) (splitLines t) = Some line"
  then show "reindent t (Some adj) = Inl (StripPreconditionFailed line (Strip adj))"
    unfolding reindent_char by simp
next
  assume "find (lacksPrefix (Strip adj)) (splitLines t) = None"
  then show "reindent t (Some adj) = Inr (joinLines (map (reindentLine adj) (splitLines t)))"
    unfolding reindent_char by simp
next
  assume a: "reindent t (Some adj) = Inr r \<and> nl \<notin> set (Add adj)"
  then have r: "r = joinLines (map (reindentLine adj) (splitLines t))"
    unfolding reindent_char by (auto split: option.splits)
  from a have nla: "nl \<notin> set (Add adj)" by simp
  have "\<forall>l\<in>set (map (reindentLine adj) (splitLines t)). nl \<notin> set l"
    using reindentLine_no_nl[OF nla] split_no_nl by auto
  then show "splitLines r = map (reindentLine adj) (splitLines t)"
    unfolding r by (intro split_join) (simp_all add: splitLines_ne)
next
  let ?ls = "splitLines t"
  assume a: "reindent t (Some adj) = Inr r"
  then have r: "r = joinLines (map (reindentLine adj) ?ls)"
    and ok: "find (lacksPrefix (Strip adj)) ?ls = None"
    unfolding reindent_char by (auto split: option.splits)
  have ne: "?ls \<noteq> []" by (rule splitLines_ne)
  have lastmap: "last (map (reindentLine adj) ?ls) = reindentLine adj (last ?ls)"
    using ne by (simp add: last_map)
  have nonl: "nl \<notin> set (last ?ls)" using ne split_no_nl[of "last ?ls" t] by simp
  have lp: "\<not> lacksPrefix (Strip adj) (last ?ls)"
    using ok ne by (metis find_None_iff last_in_set)
  have "hasSuffix r [nl] = (2 \<le> length ?ls \<and> reindentLine adj (last ?ls) = [])"
    unfolding r using join_suffix_nl[of "map (reindentLine adj) ?ls"] ne lastmap
      reindentLine_last[OF nonl, of adj] by simp
  then show "hasSuffix r [nl] =
        (hasSuffix t [nl] \<or> 2 \<le> length ?ls \<and> last ?ls = Strip adj)"
    using reindentLine_empty[OF lp] text_suffix_nl[of t] by auto
qed

theorem reindent_lines_witness:
  "find (lacksPrefix ''  '') (splitLines ''a\<newline>'') = Some ''a''
   \<and> reindent ''a\<newline>'' (Some \<lparr>Strip = ''  '', Add = ''''\<rparr>)
       = Inl (StripPreconditionFailed ''a'' ''  '')
   \<and> find (lacksPrefix ''  '') (splitLines ''  a\<newline>\<newline>  b\<newline>'') = None
   \<and> reindent ''  a\<newline>\<newline>  b\<newline>'' (Some \<lparr>Strip = ''  '', Add = ''''\<rparr>)
       = Inr ''a\<newline>\<newline>b\<newline>''
   \<and> nl \<notin> set ''''
   \<and> splitLines ''a\<newline>\<newline>b\<newline>'' = [''a'', '''', ''b'', '''']
   \<and> hasSuffix ''a\<newline>\<newline>b\<newline>'' [nl]"
  using reindent_lines[of "\<lparr>Strip = ''  '', Add = ''''\<rparr>" "''a\<newline>''" "''a''"]
    reindent_lines[of "\<lparr>Strip = ''  '', Add = ''''\<rparr>" "''  a\<newline>\<newline>  b\<newline>''"
      "''a''" "''a\<newline>\<newline>b\<newline>''"]
  by (simp add: lacksPrefix_def hasPrefix_def hasSuffix_def cutPrefix_def nl_def
      reindentLine_def)

text \<open>
  C4 as the spec states it fails twice. The text \<open>a\<newline>a\<close> has no terminal
  newline, and with \<open>strip = a\<close> its result is a single newline. The text \<open>a\<close> has one
  line, and with \<open>add\<close> a newline its result has two.
\<close>

theorem reindent_preserves_counterexample:
  "reindent ''a\<newline>a'' (Some \<lparr>Strip = ''a'', Add = ''''\<rparr>) = Inr ''\<newline>''
   \<and> \<not> hasSuffix ''a\<newline>a'' [nl] \<and> hasSuffix ''\<newline>'' [nl]
   \<and> reindent ''a'' (Some \<lparr>Strip = '''', Add = ''\<newline>''\<rparr>) = Inr ''\<newline>a''
   \<and> length (splitLines ''a'') = 1 \<and> length (splitLines ''\<newline>a'') = 2"
  by (simp add: hasPrefix_def hasSuffix_def cutPrefix_def nl_def)

section \<open>The batch: properties\<close>

text \<open>
  C10. A batch whose list of operations is empty is rejected with the error
  "no patches provided"; no file-system call is made, so the file is neither read nor
  created nor written, and the clipboards are as before.
\<close>

theorem patchRun_no_patches:
  "patchRun G K fs \<lparr>Path = p, Patches = []\<rparr> cb
     = \<lparr>out = ErrorToolOut NoPatchesProvided, clips = cb, io = []\<rparr>"
  by (simp add: patchRun_def)


lemmas run_defs = patchRun_def runOn_def initState_def patchStep_def captureToClipboard_def
  resolveNewText_def applyOperation_def matchLadder_def updateToClipboard_def finish_def
  NewBuffer_def ApplyToEditBuf_def Replace_def Insert_def registerEdit_def Bytes_def
  IsAutogeneratedGoFile_def autogeneratedSignals_def autogeneratedHeaderSignals_def
  hasSuffix_def hasPrefix_def cutPrefix_def creates_def nl_def Let_def

lemmas kit_defs = exactKit_def noMatch_def ExactUnique_def matchOffsets_def upt_conv_Cons
  plainFs_def noGo_def request_def

lemma step_patchErr:
  "patchStep K orig i patch s = Continue s' \<Longrightarrow>
   patchErr s' = patchErr s @ (case matchFailure K orig patch (clipboards s) of Some e \<Rightarrow> [e] | None \<Rightarrow> [])"
  by (auto simp: patchStep_def applyOperation_def matchFailure_def updateToClipboard_def Let_def
      split: sum.splits if_splits ladder_result.splits)

lemma loop_patchErr:
  "patchLoop K orig i ops s = Continue s' \<Longrightarrow>
   patchErr s' = patchErr s @ map snd (failures K orig i ops s)"
proof (induction ops arbitrary: i s)
  case Nil
  then show ?case by simp
next
  case (Cons patch rest)
  then obtain s1 where st: "patchStep K orig i patch s = Continue s1"
    and lp: "patchLoop K orig (Suc i) rest s1 = Continue s'"
    by (auto split: step_result.splits)
  from Cons.IH[OF lp] step_patchErr[OF st] st show ?case
    by (auto split: option.splits)
qed

lemma patchLoop_append:
  "patchLoop K orig i (pre @ post) s =
     (case patchLoop K orig i pre s of
        Abort e cb \<Rightarrow> Abort e cb
      | Continue s1 \<Rightarrow> patchLoop K orig (i + length pre) post s1)"
  by (induction pre arbitrary: i s) (auto split: step_result.splits)

lemma structural_step:
  "structuralError i patch (clipboards s) = Some e \<Longrightarrow>
   \<exists>cb'. patchStep K orig i patch s = Abort e cb'"
  by (auto simp: structuralError_def patchStep_def captureToClipboard_def resolveNewText_def
      applyOperation_def insertedText_def creates_def
      split: if_splits option.splits sum.splits)

lemma step_abort_structural:
  "patchStep K orig i patch s = Abort e cb' \<Longrightarrow>
   e = RuntimePanic \<or> structuralError i patch (clipboards s) = Some e"
  by (auto simp: structuralError_def patchStep_def captureToClipboard_def resolveNewText_def
      applyOperation_def insertedText_def creates_def updateToClipboard_def Let_def
      split: if_splits option.splits sum.splits ladder_result.splits)

lemma ladder_zero:
  "Unique K h n r = (spec, 0) \<Longrightarrow> matchLadder K h n r = firstMatch (recoveryTiers K) h n r"
  by (simp add: matchLadder_def recoveryTiers_def split: option.splits)

lemma failures_ge: "(j, e) \<in> set (failures K orig i ops s) \<Longrightarrow> i \<le> j"
proof (induction ops arbitrary: i s)
  case Nil
  then show ?case by simp
next
  case (Cons patch rest)
  then show ?case
    by (fastforce split: option.splits step_result.splits)
qed

lemma failures_sorted: "sorted_wrt (<) (map fst (failures K orig i ops s))"
proof (induction ops arbitrary: i s)
  case Nil
  then show ?case by simp
next
  case (Cons patch rest)
  have "\<And>s' j e. (j, e) \<in> set (failures K orig (Suc i) rest s') \<Longrightarrow> i < j"
    using failures_ge by fastforce
  with Cons show ?case
    by (auto simp: sorted_wrt_append split: option.splits step_result.splits)
qed

lemma failing_step:
  "matchFailure K orig patch (clipboards s) = Some e \<Longrightarrow>
   \<exists>cb'. patchStep K orig i patch s = Continue (s\<lparr>clipboards := cb', patchErr := patchErr s @ [e]\<rparr>)"
  by (auto simp: matchFailure_def patchStep_def applyOperation_def
      split: if_splits sum.splits ladder_result.splits)

lemma runOn_continue:
  "patchLoop K orig 0 ops (initState orig cb) = Continue sF \<Longrightarrow>
   runOn G K fs \<lparr>Path = p, Patches = ops\<rparr> orig cb =
     finish fs p (hasSuffix p ''.go'' \<and> IsAutogeneratedGoFile G orig) orig sF"
  by (simp add: runOn_def initState_def)

lemma runOn_abort:
  "patchLoop K orig 0 ops (initState orig cb) = Abort e cb' \<Longrightarrow>
   runOn G K fs \<lparr>Path = p, Patches = ops\<rparr> orig cb =
     \<lparr>out = ErrorToolOut e, clips = cb', io = [ReadFile p]\<rparr>"
  by (simp add: runOn_def initState_def)

lemma patchRun_existing:
  "readFile fs = FileContent orig \<Longrightarrow> ops \<noteq> [] \<Longrightarrow>
   patchRun G K fs \<lparr>Path = p, Patches = ops\<rparr> cb = runOn G K fs \<lparr>Path = p, Patches = ops\<rparr> orig cb"
  by (simp add: patchRun_def)

text \<open>
  C1. An operation whose matching fails (old text not found, or not unique) does not
  end the batch: its error is recorded and the loop goes on with the next operation.
  When the loop has run through the whole batch and some operation has failed, the
  result is the rejection that lists the errors of the failing operations, one entry
  for each, in the order of the operations; only the read of the file has happened, so
  nothing is written.
\<close>

theorem match_errors_aggregate:
  "(matchFailure K orig patch (clipboards s) = Some e \<longrightarrow>
      (\<exists>cb'. patchStep K orig i patch s
              = Continue (s\<lparr>clipboards := cb', patchErr := patchErr s @ [e]\<rparr>)))
   \<and> (readFile fs = FileContent orig
       \<and> patchLoop K orig 0 ops (initState orig cb) = Continue sF
       \<and> failures K orig 0 ops (initState orig cb) \<noteq> [] \<longrightarrow>
      patchRun G K fs \<lparr>Path = p, Patches = ops\<rparr> cb
        = \<lparr>out = ErrorToolOut
                  (PatchErrors (map snd (failures K orig 0 ops (initState orig cb)))
                     (clipboardsModified sF)),
           clips = clipboards sF, io = [ReadFile p]\<rparr>)
   \<and> sorted_wrt (<) (map fst (failures K orig i ops s))"
proof (intro conjI impI)
  assume "matchFailure K orig patch (clipboards s) = Some e"
  then show "\<exists>cb'. patchStep K orig i patch s
              = Continue (s\<lparr>clipboards := cb', patchErr := patchErr s @ [e]\<rparr>)"
    by (rule failing_step)
next
  assume a: "readFile fs = FileContent orig
       \<and> patchLoop K orig 0 ops (initState orig cb) = Continue sF
       \<and> failures K orig 0 ops (initState orig cb) \<noteq> []"
  then have ne: "ops \<noteq> []" by auto
  from a have lp: "patchLoop K orig 0 ops (initState orig cb) = Continue sF" by simp
  have pe: "patchErr sF = map snd (failures K orig 0 ops (initState orig cb))"
    using loop_patchErr[OF lp] by (simp add: initState_def)
  with a have "patchErr sF \<noteq> []" by simp
  then show "patchRun G K fs \<lparr>Path = p, Patches = ops\<rparr> cb
        = \<lparr>out = ErrorToolOut
                  (PatchErrors (map snd (failures K orig 0 ops (initState orig cb)))
                     (clipboardsModified sF)),
           clips = clipboards sF, io = [ReadFile p]\<rparr>"
    using a ne pe by (simp add: patchRun_existing runOn_continue[OF lp] finish_def)
next
  show "sorted_wrt (<) (map fst (failures K orig i ops s))" by (rule failures_sorted)
qed

lemma three_replaces_loop:
  "patchLoop exactKit ''abc'' 0
       [request ''replace'' ''a'' ''x'', request ''replace'' ''z'' ''y'',
        request ''replace'' ''c'' ''w''] (initState ''abc'' Map.empty)
   = Continue \<lparr>clipboards = Map.empty,
       buf = \<lparr>old = ''abc'', pending = [\<lparr>offset = 0, len = 1, replacement = ''x''\<rparr>,
                                        \<lparr>offset = 2, len = 1, replacement = ''w''\<rparr>]\<rparr>,
       patchErr = [OldTextNotFound ''z''], clipboardsModified = []\<rparr>"
  by (simp add: run_defs kit_defs)

lemma three_replaces_failures:
  "failures exactKit ''abc'' 0
       [request ''replace'' ''a'' ''x'', request ''replace'' ''z'' ''y'',
        request ''replace'' ''c'' ''w''] (initState ''abc'' Map.empty)
   = [(1, OldTextNotFound ''z'')]"
  by (simp add: run_defs kit_defs matchFailure_def)

theorem match_errors_aggregate_witness:
  "matchFailure exactKit ''abc'' (request ''replace'' ''z'' ''y'') Map.empty
     = Some (OldTextNotFound ''z'')
   \<and> readFile (plainFs ''abc'') = FileContent ''abc''
   \<and> failures exactKit ''abc'' 0
       [request ''replace'' ''a'' ''x'', request ''replace'' ''z'' ''y'',
        request ''replace'' ''c'' ''w''] (initState ''abc'' Map.empty)
      = [(1, OldTextNotFound ''z'')]
   \<and> patchRun noGo exactKit (plainFs ''abc'')
        \<lparr>Path = ''f'', Patches = [request ''replace'' ''a'' ''x'',
           request ''replace'' ''z'' ''y'', request ''replace'' ''c'' ''w'']\<rparr> Map.empty
      = \<lparr>out = ErrorToolOut (PatchErrors [OldTextNotFound ''z''] []),
         clips = Map.empty, io = [ReadFile ''f'']\<rparr>"
proof -
  let ?ops = "[request ''replace'' ''a'' ''x'', request ''replace'' ''z'' ''y'',
        request ''replace'' ''c'' ''w'']"
  let ?sF = "\<lparr>clipboards = Map.empty,
       buf = \<lparr>old = ''abc'', pending = [\<lparr>offset = 0, len = 1, replacement = ''x''\<rparr>,
                                        \<lparr>offset = 2, len = 1, replacement = ''w''\<rparr>]\<rparr>,
       patchErr = [OldTextNotFound ''z''], clipboardsModified = []\<rparr>"
  have f: "readFile (plainFs ''abc'') = FileContent ''abc''" by (simp add: plainFs_def)
  have m: "matchFailure exactKit ''abc'' (request ''replace'' ''z'' ''y'') Map.empty
     = Some (OldTextNotFound ''z'')"
    by (simp add: run_defs kit_defs matchFailure_def)
  have ne: "failures exactKit ''abc'' 0 ?ops (initState ''abc'' Map.empty) \<noteq> []"
    by (simp only: three_replaces_failures) simp
  have "patchRun noGo exactKit (plainFs ''abc'') \<lparr>Path = ''f'', Patches = ?ops\<rparr> Map.empty
      = \<lparr>out = ErrorToolOut
                (PatchErrors (map snd (failures exactKit ''abc'' 0 ?ops (initState ''abc'' Map.empty)))
                   (clipboardsModified ?sF)),
         clips = clipboards ?sF, io = [ReadFile ''f'']\<rparr>"
    using match_errors_aggregate[where K = exactKit and orig = "''abc''" and fs = "plainFs ''abc''"
        and ops = ?ops and cb = Map.empty and sF = ?sF and G = noGo and p = "''f''"]
      f three_replaces_loop ne by blast
  then have r: "patchRun noGo exactKit (plainFs ''abc'') \<lparr>Path = ''f'', Patches = ?ops\<rparr> Map.empty
      = \<lparr>out = ErrorToolOut (PatchErrors [OldTextNotFound ''z''] []),
         clips = Map.empty, io = [ReadFile ''f'']\<rparr>"
    by (simp only: three_replaces_failures) simp
  from m f three_replaces_failures r show ?thesis by blast
qed

section \<open>The match ladder\<close>

lemma ladder_one:
  "Unique K h n r = (Some sp, 1) \<Longrightarrow> matchLadder K h n r = Matched TierUnique sp"
  by (simp add: matchLadder_def)

lemma ladder_two:
  "Unique K h n r = (spec, 2) \<Longrightarrow> matchLadder K h n r = NotUnique"
  by (simp add: matchLadder_def)

lemma exact_one:
  "matchOffsets h n = [k] \<Longrightarrow> ExactUnique h n r = (Some \<lparr>Off = k, Len = length n, New = r\<rparr>, 1)"
  by (simp add: ExactUnique_def)

lemma exact_many:
  "2 \<le> length (matchOffsets h n) \<Longrightarrow> ExactUnique h n r = (None, 2)"
  by (auto simp: ExactUnique_def split: list.splits)

lemma exact_none:
  "matchOffsets h n = [] \<Longrightarrow> ExactUnique h n r = (None, 0)"
  by (simp add: ExactUnique_def)

lemma matchOffsets_iff:
  "k \<in> set (matchOffsets h n) \<longleftrightarrow> k \<le> length h - length n \<and> take (length n) (drop k h) = n"
  by (auto simp: matchOffsets_def less_Suc_eq_le simp del: upt_Suc)

text \<open>
  C2. The ladder tries its tiers in order. When the first tier counts no occurrence,
  the result is that of the recovery tiers tried in the order dedent, valid Go, Go
  tokens, first-line trim, each one only when those before it found nothing. A count of
  one is a match of the first tier, and the replace registers its edit at that span; a
  count of two is the error that the old text is not unique, and the replace registers
  no edit; in both cases no recovery tier is consulted. With the literal search as first
  tier, the count is one exactly when the old text occurs once, and the span is that
  occurrence; two or more occurrences are ambiguous.
\<close>

theorem ladder_order:
  "(Unique K h n r = (spec, 0) \<longrightarrow>
      matchLadder K h n r = firstMatch (recoveryTiers K) h n r)
   \<and> (Unique K h n r = (Some sp, 1) \<longrightarrow> matchLadder K h n r = Matched TierUnique sp)
   \<and> (Unique K h n r = (spec, 2) \<longrightarrow> matchLadder K h n r = NotUnique)
   \<and> (Unique K = ExactUnique \<and> matchOffsets h n = [] \<longrightarrow>
      matchLadder K h n r = firstMatch (recoveryTiers K) h n r)
   \<and> (Unique K = ExactUnique \<and> matchOffsets h n = [k] \<longrightarrow>
      matchLadder K h n r = Matched TierUnique \<lparr>Off = k, Len = length n, New = r\<rparr>
      \<and> take (length n) (drop k h) = n)
   \<and> (Unique K = ExactUnique \<and> 2 \<le> length (matchOffsets h n) \<longrightarrow>
      matchLadder K h n r = NotUnique)
   \<and> (Operation patch = ''replace'' \<and> OldText patch \<noteq> []
       \<and> matchLadder K h (OldText patch) r = Matched TierUnique sp \<longrightarrow>
      applyOperation K h i patch r s
        = Continue (s\<lparr>buf := registerEdit (Off sp) (Len sp) (New sp) (buf s)\<rparr>))
   \<and> (Operation patch = ''replace'' \<and> OldText patch \<noteq> []
       \<and> matchLadder K h (OldText patch) r = NotUnique \<longrightarrow>
      applyOperation K h i patch r s
        = Continue (s\<lparr>patchErr := patchErr s @ [OldTextNotUnique (OldText patch)]\<rparr>))"
proof (intro conjI impI)
  assume "Unique K = ExactUnique \<and> matchOffsets h n = [k]"
  then have m: "matchOffsets h n = [k]" by simp
  have "k \<in> set (matchOffsets h n)" by (simp add: m)
  then show "take (length n) (drop k h) = n" by (simp add: matchOffsets_iff)
qed (simp_all add: ladder_zero ladder_one ladder_two exact_one exact_many exact_none
      applyOperation_def ApplyToEditBuf_def Replace_def)

theorem ladder_order_witness:
  "Unique exactKit = ExactUnique
   \<and> matchOffsets ''abcabc'' ''bca'' = [1]
   \<and> matchLadder exactKit ''abcabc'' ''bca'' ''x''
        = Matched TierUnique \<lparr>Off = 1, Len = 3, New = ''x''\<rparr>
   \<and> 2 \<le> length (matchOffsets ''abcabc'' ''bc'')
   \<and> matchLadder exactKit ''abcabc'' ''bc'' ''x'' = NotUnique
   \<and> Unique dedentKit tabbed ''a\<newline>b\<newline>'' ''y'' = (None, 0)
   \<and> matchLadder dedentKit tabbed ''a\<newline>b\<newline>'' ''y''
        = Matched TierDedent \<lparr>Off = 0, Len = 6, New = ''y''\<rparr>
   \<and> applyOperation exactKit ''abcabc'' 0 (request ''replace'' ''bca'' ''x'') ''x''
        (initState ''abcabc'' Map.empty)
      = Continue \<lparr>clipboards = Map.empty,
          buf = \<lparr>old = ''abcabc'', pending = [\<lparr>offset = 1, len = 3, replacement = ''x''\<rparr>]\<rparr>,
          patchErr = [], clipboardsModified = []\<rparr>
   \<and> applyOperation exactKit ''abcabc'' 0 (request ''replace'' ''bc'' ''x'') ''x''
        (initState ''abcabc'' Map.empty)
      = Continue \<lparr>clipboards = Map.empty, buf = \<lparr>old = ''abcabc'', pending = []\<rparr>,
          patchErr = [OldTextNotUnique ''bc''], clipboardsModified = []\<rparr>"
proof -
  have u: "Unique exactKit = ExactUnique" by (simp add: exactKit_def)
  have o1: "matchOffsets ''abcabc'' ''bca'' = [1]" by (simp add: matchOffsets_def upt_conv_Cons)
  have "matchOffsets ''abcabc'' ''bc'' = [1, 4]"
    by (simp add: matchOffsets_def upt_conv_Cons)
  then have o2: "2 \<le> length (matchOffsets ''abcabc'' ''bc'')" by simp
  have u0: "Unique dedentKit tabbed ''a\<newline>b\<newline>'' ''y'' = (None, 0)"
    by (simp add: dedentKit_def tabbed_def ExactUnique_def matchOffsets_def upt_conv_Cons)
  note T1 = ladder_order[where K = exactKit and h = "''abcabc''" and n = "''bca''" and r = "''x''"
      and k = 1 and patch = "request ''replace'' ''bca'' ''x''" and i = 0
      and sp = "\<lparr>Off = 1, Len = 3, New = ''x''\<rparr>" and s = "initState ''abcabc'' Map.empty"]
  note T2 = ladder_order[where K = exactKit and h = "''abcabc''" and n = "''bc''" and r = "''x''"
      and patch = "request ''replace'' ''bc'' ''x''" and i = 0
      and s = "initState ''abcabc'' Map.empty"]
  note T3 = ladder_order[where K = dedentKit and h = tabbed
      and n = "''a\<newline>b\<newline>''" and r = "''y''" and spec = None]
  have l1: "matchLadder exactKit ''abcabc'' ''bca'' ''x''
        = Matched TierUnique \<lparr>Off = 1, Len = 3, New = ''x''\<rparr>"
    using T1 u o1 by simp
  have l2: "matchLadder exactKit ''abcabc'' ''bc'' ''x'' = NotUnique"
    using T2 u o2 by blast
  have l3: "matchLadder dedentKit tabbed ''a\<newline>b\<newline>'' ''y''
        = Matched TierDedent \<lparr>Off = 0, Len = 6, New = ''y''\<rparr>"
    using T3 u0 by (simp add: recoveryTiers_def dedentKit_def dedentExample_def)
  have a1: "applyOperation exactKit ''abcabc'' 0 (request ''replace'' ''bca'' ''x'') ''x''
        (initState ''abcabc'' Map.empty)
      = Continue \<lparr>clipboards = Map.empty,
          buf = \<lparr>old = ''abcabc'', pending = [\<lparr>offset = 1, len = 3, replacement = ''x''\<rparr>]\<rparr>,
          patchErr = [], clipboardsModified = []\<rparr>"
    using T1 l1 by (simp add: request_def initState_def NewBuffer_def registerEdit_def)
  have a2: "applyOperation exactKit ''abcabc'' 0 (request ''replace'' ''bc'' ''x'') ''x''
        (initState ''abcabc'' Map.empty)
      = Continue \<lparr>clipboards = Map.empty, buf = \<lparr>old = ''abcabc'', pending = []\<rparr>,
          patchErr = [OldTextNotUnique ''bc''], clipboardsModified = []\<rparr>"
    using T2 l2 by (simp add: request_def initState_def NewBuffer_def)
  from u o1 l1 o2 l2 u0 l3 a1 a2 show ?thesis by blast
qed

section \<open>Structural errors\<close>

lemma patchRun_missing:
  "readFile fs = ErrNotExist \<Longrightarrow> ops \<noteq> [] \<Longrightarrow> list_all creates ops \<Longrightarrow>
   patchRun G K fs \<lparr>Path = p, Patches = ops\<rparr> cb = runOn G K fs \<lparr>Path = p, Patches = ops\<rparr> [] cb"
  by (simp add: patchRun_def)

text \<open>
  C3. When the file does not exist and some operation is not one of prepend_bof,
  append_eof and overwrite, the batch is rejected with the error that the file does not
  exist, and the clipboards are untouched. Otherwise, when the operations before an
  operation have been processed and that operation has a structural error (a capture on
  an operation that is not a replace, a capture with empty old text, a clipboard that
  does not exist, a reindent prefix mismatch, an empty old text on a replace, an
  unrecognized kind), the batch ends there: the result is that one error, whatever
  matching errors were recorded before it and whatever operations follow, and only the
  read of the file has happened. The loop ends early for no other reason than these
  errors and a panic of the runtime.
\<close>

theorem structural_error_aborts:
  "(readFile fs = ErrNotExist \<and> ops \<noteq> [] \<and> \<not> list_all creates ops \<longrightarrow>
      patchRun G K fs \<lparr>Path = p, Patches = ops\<rparr> cb
        = \<lparr>out = ErrorToolOut (FileDoesNotExist p), clips = cb, io = [ReadFile p]\<rparr>)
   \<and> ((readFile fs = FileContent orig
        \<or> readFile fs = ErrNotExist \<and> orig = [] \<and> list_all creates (pre @ patch # post))
       \<and> patchLoop K orig 0 pre (initState orig cb) = Continue s
       \<and> structuralError (length pre) patch (clipboards s) = Some e \<longrightarrow>
      out (patchRun G K fs \<lparr>Path = p, Patches = pre @ patch # post\<rparr> cb) = ErrorToolOut e
      \<and> io (patchRun G K fs \<lparr>Path = p, Patches = pre @ patch # post\<rparr> cb) = [ReadFile p]
      \<and> clips (patchRun G K fs \<lparr>Path = p, Patches = pre @ patch # post\<rparr> cb)
          = clipsOf (patchStep K orig (length pre) patch s))
   \<and> (patchStep K orig i patch s = Abort e cb' \<longrightarrow>
        e = RuntimePanic \<or> structuralError i patch (clipboards s) = Some e)"
proof (intro conjI impI)
  assume "readFile fs = ErrNotExist \<and> ops \<noteq> [] \<and> \<not> list_all creates ops"
  then show "patchRun G K fs \<lparr>Path = p, Patches = ops\<rparr> cb
        = \<lparr>out = ErrorToolOut (FileDoesNotExist p), clips = cb, io = [ReadFile p]\<rparr>"
    by (simp add: patchRun_def)
next
  assume a: "(readFile fs = FileContent orig
        \<or> readFile fs = ErrNotExist \<and> orig = [] \<and> list_all creates (pre @ patch # post))
       \<and> patchLoop K orig 0 pre (initState orig cb) = Continue s
       \<and> structuralError (length pre) patch (clipboards s) = Some e"
  let ?ops = "pre @ patch # post"
  from a have run: "patchRun G K fs \<lparr>Path = p, Patches = ?ops\<rparr> cb
      = runOn G K fs \<lparr>Path = p, Patches = ?ops\<rparr> orig cb"
    by (auto simp: patchRun_existing patchRun_missing)
  from a obtain cb' where st: "patchStep K orig (length pre) patch s = Abort e cb'"
    using structural_step by blast
  with a have lp: "patchLoop K orig 0 ?ops (initState orig cb) = Abort e cb'"
    by (simp add: patchLoop_append)
  show "out (patchRun G K fs \<lparr>Path = p, Patches = ?ops\<rparr> cb) = ErrorToolOut e"
    and "io (patchRun G K fs \<lparr>Path = p, Patches = ?ops\<rparr> cb) = [ReadFile p]"
    and "clips (patchRun G K fs \<lparr>Path = p, Patches = ?ops\<rparr> cb)
          = clipsOf (patchStep K orig (length pre) patch s)"
    by (simp_all add: run runOn_abort[OF lp] st)
next
  assume "patchStep K orig i patch s = Abort e cb'"
  then show "e = RuntimePanic \<or> structuralError i patch (clipboards s) = Some e"
    by (rule step_abort_structural)
qed

theorem structural_error_aborts_witness:
  "readFile \<lparr>readFile = ErrNotExist, mkdirAllOk = True, writeFileOk = True\<rparr> = ErrNotExist
   \<and> \<not> list_all creates [request ''append_eof'' [] ''x'', request ''replace'' ''a'' ''b'']
   \<and> patchRun noGo exactKit \<lparr>readFile = ErrNotExist, mkdirAllOk = True, writeFileOk = True\<rparr>
        \<lparr>Path = ''f'',
         Patches = [request ''append_eof'' [] ''x'', request ''replace'' ''a'' ''b'']\<rparr> Map.empty
      = \<lparr>out = ErrorToolOut (FileDoesNotExist ''f''), clips = Map.empty, io = [ReadFile ''f'']\<rparr>
   \<and> readFile (plainFs ''abc'') = FileContent ''abc''
   \<and> patchErr \<lparr>clipboards = Map.empty, buf = \<lparr>old = ''abc'', pending = []\<rparr>,
        patchErr = [OldTextNotFound ''z''], clipboardsModified = []\<rparr> = [OldTextNotFound ''z'']
   \<and> patchLoop exactKit ''abc'' 0 [request ''replace'' ''z'' ''y''] (initState ''abc'' Map.empty)
      = Continue \<lparr>clipboards = Map.empty, buf = \<lparr>old = ''abc'', pending = []\<rparr>,
          patchErr = [OldTextNotFound ''z''], clipboardsModified = []\<rparr>
   \<and> structuralError 1 (request ''rename'' [] ''x'') Map.empty
      = Some (UnrecognizedOperation ''rename'')
   \<and> out (patchRun noGo exactKit (plainFs ''abc'')
        \<lparr>Path = ''f'', Patches = [request ''replace'' ''z'' ''y''] @
           request ''rename'' [] ''x'' # [request ''replace'' ''c'' ''w'']\<rparr> Map.empty)
      = ErrorToolOut (UnrecognizedOperation ''rename'')
   \<and> io (patchRun noGo exactKit (plainFs ''abc'')
        \<lparr>Path = ''f'', Patches = [request ''replace'' ''z'' ''y''] @
           request ''rename'' [] ''x'' # [request ''replace'' ''c'' ''w'']\<rparr> Map.empty)
      = [ReadFile ''f'']"
proof -
  let ?nofs = "\<lparr>readFile = ErrNotExist, mkdirAllOk = True, writeFileOk = True\<rparr>"
  let ?ops = "[request ''append_eof'' [] ''x'', request ''replace'' ''a'' ''b'']"
  let ?s = "\<lparr>clipboards = Map.empty, buf = \<lparr>old = ''abc'', pending = []\<rparr>,
        patchErr = [OldTextNotFound ''z''], clipboardsModified = []\<rparr>"
  have h1: "readFile ?nofs = ErrNotExist" by simp
  have h2: "\<not> list_all creates ?ops" by (simp add: creates_def request_def)
  have h3: "?ops \<noteq> []" by simp
  have c1: "patchRun noGo exactKit ?nofs \<lparr>Path = ''f'', Patches = ?ops\<rparr> Map.empty
      = \<lparr>out = ErrorToolOut (FileDoesNotExist ''f''), clips = Map.empty, io = [ReadFile ''f'']\<rparr>"
    using structural_error_aborts[where fs = ?nofs and ops = ?ops and G = noGo and K = exactKit
        and p = "''f''" and cb = Map.empty] h1 h2 h3 by blast
  have h4: "readFile (plainFs ''abc'') = FileContent ''abc''" by (simp add: plainFs_def)
  have h5: "patchLoop exactKit ''abc'' 0 [request ''replace'' ''z'' ''y''] (initState ''abc'' Map.empty)
      = Continue ?s"
    by (simp add: run_defs kit_defs)
  have h6: "structuralError (length [request ''replace'' ''z'' ''y''])
      (request ''rename'' [] ''x'') (clipboards ?s) = Some (UnrecognizedOperation ''rename'')"
    by (simp add: structuralError_def request_def creates_def)
  have h6': "structuralError 1 (request ''rename'' [] ''x'') Map.empty
      = Some (UnrecognizedOperation ''rename'')"
    using h6 by simp
  note T = structural_error_aborts[where fs = "plainFs ''abc''" and orig = "''abc''"
      and pre = "[request ''replace'' ''z'' ''y'']" and patch = "request ''rename'' [] ''x''"
      and post = "[request ''replace'' ''c'' ''w'']" and K = exactKit and cb = Map.empty
      and s = ?s and e = "UnrecognizedOperation ''rename''" and G = noGo and p = "''f''"]
  have c2: "out (patchRun noGo exactKit (plainFs ''abc'')
        \<lparr>Path = ''f'', Patches = [request ''replace'' ''z'' ''y''] @
           request ''rename'' [] ''x'' # [request ''replace'' ''c'' ''w'']\<rparr> Map.empty)
      = ErrorToolOut (UnrecognizedOperation ''rename'')"
    and c3: "io (patchRun noGo exactKit (plainFs ''abc'')
        \<lparr>Path = ''f'', Patches = [request ''replace'' ''z'' ''y''] @
           request ''rename'' [] ''x'' # [request ''replace'' ''c'' ''w'']\<rparr> Map.empty)
      = [ReadFile ''f'']"
    using T h4 h5 h6 by blast+
  have h7: "patchErr ?s = [OldTextNotFound ''z'']" by simp
  from h1 h2 c1 h4 h7 h5 h6' c2 c3 show ?thesis by blast
qed

section \<open>Clipboards\<close>











lemma step_clip_frame:
  "ToClipboard patch \<noteq> c \<Longrightarrow> clipsOf (patchStep K orig i patch s) c = clipboards s c"
  by (auto simp: patchStep_def captureToClipboard_def applyOperation_def updateToClipboard_def
      Let_def split: sum.splits if_splits ladder_result.splits)

lemma loop_clip_frame:
  "\<forall>q\<in>set ops. ToClipboard q \<noteq> c \<Longrightarrow>
   clipsOf (patchLoop K orig i ops s) c = clipboards s c"
proof (induction ops arbitrary: i s)
  case Nil
  then show ?case by simp
next
  case (Cons patch rest)
  then have f: "clipsOf (patchStep K orig i patch s) c = clipboards s c"
    by (simp add: step_clip_frame)
  show ?case
  proof (cases "patchStep K orig i patch s")
    case (Abort e cb')
    then show ?thesis using f by simp
  next
    case (Continue s1)
    then show ?thesis using f Cons by simp
  qed
qed

lemma step_capture:
  assumes "ToClipboard patch = c" and "c \<noteq> []" and "Operation patch = ''replace''"
    and "OldText patch \<noteq> []"
  shows "clipsOf (patchStep K orig i patch s) c = Some (capturedText K orig patch (clipboards s))"
  using assms
  by (auto simp: patchStep_def captureToClipboard_def applyOperation_def updateToClipboard_def
      capturedText_def recaptures_def Let_def
      split: sum.splits if_splits ladder_result.splits)

lemma clips_runOn:
  "clips (runOn G K fs \<lparr>Path = p, Patches = ops\<rparr> orig cb)
     = clipsOf (patchLoop K orig 0 ops (initState orig cb))"
  by (auto simp: runOn_def initState_def finish_def split: step_result.splits sum.splits)


text \<open>
  C9. Whatever way a batch ends, and so also when it is rejected, a clipboard that one
  of its processed operations captured into holds what that operation left there (the
  matched text of the document after a match by the second, third or fourth tier, the
  old text as given otherwise), provided no later operation of the batch captures into
  the same clipboard; a later batch that names the clipboard gets that text. A
  clipboard that no operation of the batch captures into is as it was before.
\<close>

theorem clipboards_survive_rejection:
  "(readFile fs = FileContent orig
    \<and> patchLoop K orig 0 pre (initState orig cb) = Continue s
    \<and> ToClipboard patch = c \<and> c \<noteq> [] \<and> Operation patch = ''replace'' \<and> OldText patch \<noteq> []
    \<and> (\<forall>q\<in>set post. ToClipboard q \<noteq> c) \<longrightarrow>
      clips (patchRun G K fs \<lparr>Path = p, Patches = pre @ patch # post\<rparr> cb) c
        = Some (capturedText K orig patch (clipboards s))
      \<and> (FromClipboard q = c \<and> ReindentAdj q = None \<longrightarrow>
           resolveNewText q (clips (patchRun G K fs \<lparr>Path = p, Patches = pre @ patch # post\<rparr> cb))
             = Inr (capturedText K orig patch (clipboards s))))
   \<and> ((\<forall>q\<in>set ops. ToClipboard q \<noteq> c) \<longrightarrow>
      clips (patchRun G K fs \<lparr>Path = p, Patches = ops\<rparr> cb) c = cb c)"
proof (intro conjI impI)
  let ?ops = "pre @ patch # post"
  let ?r = "patchRun G K fs \<lparr>Path = p, Patches = ?ops\<rparr> cb"
  assume a: "readFile fs = FileContent orig
    \<and> patchLoop K orig 0 pre (initState orig cb) = Continue s
    \<and> ToClipboard patch = c \<and> c \<noteq> [] \<and> Operation patch = ''replace'' \<and> OldText patch \<noteq> []
    \<and> (\<forall>q\<in>set post. ToClipboard q \<noteq> c)"
  have run: "clips ?r = clipsOf (patchLoop K orig 0 ?ops (initState orig cb))"
    using a by (simp add: patchRun_existing clips_runOn)
  have cap: "clipsOf (patchStep K orig (length pre) patch s) c
      = Some (capturedText K orig patch (clipboards s))"
    using a by (intro step_capture) simp_all
  have "clipsOf (patchLoop K orig 0 ?ops (initState orig cb)) c
      = Some (capturedText K orig patch (clipboards s))"
  proof (cases "patchStep K orig (length pre) patch s")
    case (Abort e cb')
    then show ?thesis using a cap by (simp add: patchLoop_append)
  next
    case (Continue s1)
    then have "clipsOf (patchLoop K orig 0 ?ops (initState orig cb)) c
        = clipsOf (patchLoop K orig (Suc (length pre)) post s1) c"
      using a by (simp add: patchLoop_append)
    also have "\<dots> = clipboards s1 c" using a by (intro loop_clip_frame) simp
    finally show ?thesis using cap Continue by simp
  qed
  then show c1: "clips ?r c = Some (capturedText K orig patch (clipboards s))"
    by (simp add: run)
  assume "FromClipboard q = c \<and> ReindentAdj q = None"
  then show "resolveNewText q (clips ?r) = Inr (capturedText K orig patch (clipboards s))"
    using a c1 by (simp add: resolveNewText_def)
next
  assume a: "\<forall>q\<in>set ops. ToClipboard q \<noteq> c"
  have "clipsOf (patchLoop K t 0 ops (initState t cb)) c = cb c" for t
    using loop_clip_frame[OF a, of K t 0 "initState t cb"] by (simp add: initState_def)
  then show "clips (patchRun G K fs \<lparr>Path = p, Patches = ops\<rparr> cb) c = cb c"
    by (simp add: patchRun_def clips_runOn split: read_result.splits)
qed

theorem clipboards_survive_rejection_witness:
  "out (patchRun noGo exactKit (plainFs ''abc'')
        \<lparr>Path = ''f'', Patches = [] @ capture ''a'' ''x'' ''k'' # [request ''replace'' ''z'' ''y'']\<rparr>
        Map.empty)
     = ErrorToolOut (PatchErrors [OldTextNotFound ''z''] [])
   \<and> clips (patchRun noGo exactKit (plainFs ''abc'')
        \<lparr>Path = ''f'', Patches = [] @ capture ''a'' ''x'' ''k'' # [request ''replace'' ''z'' ''y'']\<rparr>
        Map.empty) ''k''
     = Some ''a''
   \<and> out (patchRun noGo dedentKit (plainFs tabbed)
        \<lparr>Path = ''f'',
         Patches = [] @ capture ''a\<newline>b\<newline>'' ''c'' ''k'' # [request ''replace'' ''z'' ''y'']\<rparr>
        Map.empty)
     = ErrorToolOut (PatchErrors [OldTextNotFound ''z''] [ClipboardModified ''k'' tabbed])
   \<and> clips (patchRun noGo dedentKit (plainFs tabbed)
        \<lparr>Path = ''f'',
         Patches = [] @ capture ''a\<newline>b\<newline>'' ''c'' ''k'' # [request ''replace'' ''z'' ''y'']\<rparr>
        Map.empty) ''k''
     = Some tabbed
   \<and> resolveNewText (paste ''append_eof'' ''k'')
        (clips (patchRun noGo dedentKit (plainFs tabbed)
          \<lparr>Path = ''f'',
           Patches = [] @ capture ''a\<newline>b\<newline>'' ''c'' ''k'' # [request ''replace'' ''z'' ''y'']\<rparr>
          Map.empty))
     = Inr tabbed
   \<and> clips (patchRun noGo exactKit (plainFs ''abc'')
        \<lparr>Path = ''f'', Patches = [request ''replace'' ''z'' ''y'']\<rparr> [''k'' \<mapsto> ''v'']) ''k''
     = Some ''v''"
proof -
  let ?post = "[request ''replace'' ''z'' ''y'']"
  let ?p1 = "capture ''a'' ''x'' ''k''"
  let ?p2 = "capture ''a\<newline>b\<newline>'' ''c'' ''k''"
  let ?r1 = "patchRun noGo exactKit (plainFs ''abc'') \<lparr>Path = ''f'', Patches = [] @ ?p1 # ?post\<rparr>
        Map.empty"
  let ?r2 = "patchRun noGo dedentKit (plainFs tabbed) \<lparr>Path = ''f'', Patches = [] @ ?p2 # ?post\<rparr>
        Map.empty"
  have o1: "out ?r1 = ErrorToolOut (PatchErrors [OldTextNotFound ''z''] [])"
    by (simp add: run_defs kit_defs capture_def)
  have o2: "out ?r2 = ErrorToolOut (PatchErrors [OldTextNotFound ''z''] [ClipboardModified ''k'' tabbed])"
    by (simp add: run_defs kit_defs capture_def dedentKit_def dedentExample_def tabbed_def)
  have post: "\<forall>q\<in>set ?post. ToClipboard q \<noteq> ''k''" by (simp add: request_def)
  have k: "''k'' \<noteq> []" by simp
  have h1: "readFile (plainFs ''abc'') = FileContent ''abc''
    \<and> patchLoop exactKit ''abc'' 0 [] (initState ''abc'' Map.empty)
        = Continue (initState ''abc'' Map.empty)
    \<and> ToClipboard ?p1 = ''k'' \<and> ''k'' \<noteq> [] \<and> Operation ?p1 = ''replace'' \<and> OldText ?p1 \<noteq> []
    \<and> (\<forall>q\<in>set ?post. ToClipboard q \<noteq> ''k'')"
    using post by (simp add: plainFs_def capture_def)
  have h2: "readFile (plainFs tabbed) = FileContent tabbed
    \<and> patchLoop dedentKit tabbed 0 [] (initState tabbed Map.empty)
        = Continue (initState tabbed Map.empty)
    \<and> ToClipboard ?p2 = ''k'' \<and> ''k'' \<noteq> [] \<and> Operation ?p2 = ''replace'' \<and> OldText ?p2 \<noteq> []
    \<and> (\<forall>q\<in>set ?post. ToClipboard q \<noteq> ''k'')"
    using post by (simp add: plainFs_def capture_def)
  have t1: "capturedText exactKit ''abc'' ?p1 (clipboards (initState ''abc'' Map.empty)) = ''a''"
    by (simp add: capturedText_def run_defs kit_defs capture_def recaptures_def)
  have t2: "capturedText dedentKit tabbed ?p2 (clipboards (initState tabbed Map.empty)) = tabbed"
    by (simp add: capturedText_def run_defs kit_defs capture_def recaptures_def dedentKit_def
        dedentExample_def tabbed_def)
  have c1: "clips ?r1 ''k'' = Some ''a''"
    using clipboards_survive_rejection[where fs = "plainFs ''abc''" and orig = "''abc''"
        and K = exactKit and pre = "[]" and cb = Map.empty and s = "initState ''abc'' Map.empty"
        and patch = ?p1 and c = "''k''" and post = ?post and G = noGo and p = "''f''"]
      h1 t1 by simp
  have pq: "FromClipboard (paste ''append_eof'' ''k'') = ''k''
      \<and> ReindentAdj (paste ''append_eof'' ''k'') = None"
    by (simp add: paste_def)
  note T2 = clipboards_survive_rejection[where fs = "plainFs tabbed" and orig = tabbed
        and K = dedentKit and pre = "[]" and cb = Map.empty and s = "initState tabbed Map.empty"
        and patch = ?p2 and c = "''k''" and post = ?post and G = noGo and p = "''f''"
        and q = "paste ''append_eof'' ''k''"]
  have c2: "clips ?r2 ''k'' = Some tabbed"
    using T2 h2 t2 by simp
  have c3: "resolveNewText (paste ''append_eof'' ''k'') (clips ?r2) = Inr tabbed"
    using T2 h2 t2 pq by simp
  have c4: "clips (patchRun noGo exactKit (plainFs ''abc'')
        \<lparr>Path = ''f'', Patches = ?post\<rparr> [''k'' \<mapsto> ''v'']) ''k'' = Some ''v''"
    using clipboards_survive_rejection[where ops = ?post and c = "''k''" and G = noGo
        and K = exactKit and fs = "plainFs ''abc''" and p = "''f''" and cb = "[''k'' \<mapsto> ''v'']"]
      post by simp
  from o1 c1 o2 c2 c3 c4 show ?thesis by blast
qed

section \<open>The autogenerated flag\<close>












section \<open>The edit buffer: properties\<close>
























end
